theory Spec2Isabelle
  imports Complex_Main
begin

section \<open>JavaScript string helpers\<close>

text \<open>
  Strings are modelled as \<^typ>\<open>string\<close> (lists of 8-bit characters), one character for
  each code unit of an ASCII text. On ASCII text the helpers below compute what the JavaScript
  functions compute. Outside ASCII they differ: \<open>isSpace\<close> knows the six ASCII white-space
  characters only (JavaScript's \<^verbatim>\<open>trim\<close> and \<^verbatim>\<open>\s\<close> also take the Unicode spaces),
  \<open>lowerChar\<close> and \<open>upperChar\<close> map the letters A to Z and a to z only (JavaScript maps
  every cased letter), and \<open>length\<close> counts bytes where JavaScript counts UTF-16 units.
  The concrete races and link lists of this theory are ASCII.
\<close>

definition isSpace :: "char \<Rightarrow> bool" where
  "isSpace c = (let n = (of_char c :: nat) in (9 \<le> n \<and> n \<le> 13) \<or> n = 32)"

definition lowerChar :: "char \<Rightarrow> char" where
  "lowerChar c = (let n = (of_char c :: nat) in if 65 \<le> n \<and> n \<le> 90 then char_of (n + 32) else c)"

definition upperChar :: "char \<Rightarrow> char" where
  "upperChar c = (let n = (of_char c :: nat) in if 97 \<le> n \<and> n \<le> 122 then char_of (n - 32) else c)"

text \<open>\<^verbatim>\<open>s.toLowerCase()\<close>\<close>

definition toLowerCase :: "string \<Rightarrow> string" where
  "toLowerCase s = map lowerChar s"

text \<open>\<^verbatim>\<open>s.trim()\<close>\<close>

definition trim :: "string \<Rightarrow> string" where
  "trim s = rev (dropWhile isSpace (rev (dropWhile isSpace s)))"

text \<open>\<^verbatim>\<open>s.replace(/ /g, '_')\<close> and \<^verbatim>\<open>s.replace(/_/g, ' ')\<close>\<close>

definition spacesToUnderscores :: "string \<Rightarrow> string" where
  "spacesToUnderscores s = map (\<lambda>c. if c = CHR '' '' then CHR ''_'' else c) s"

definition underscoresToSpaces :: "string \<Rightarrow> string" where
  "underscoresToSpaces s = map (\<lambda>c. if c = CHR ''_'' then CHR '' '' else c) s"

text \<open>\<^verbatim>\<open>s.startsWith(p)\<close> and \<^verbatim>\<open>s.includes(sub)\<close>\<close>

fun startsWith :: "string \<Rightarrow> string \<Rightarrow> bool" where
  "startsWith s [] = True"
| "startsWith [] (p # ps) = False"
| "startsWith (c # cs) (p # ps) = (c = p \<and> startsWith cs ps)"

fun "includes" :: "string \<Rightarrow> string \<Rightarrow> bool" where
  "includes [] sub = (sub = [])"
| "includes (c # cs) sub = (startsWith (c # cs) sub \<or> includes cs sub)"

text \<open>
  \<^verbatim>\<open>s.split(/\s+/)\<close>: the pieces between maximal runs of whitespace. Leading or trailing
  whitespace yields an empty first or last piece, and the result is never empty.
\<close>

fun splitWords :: "string \<Rightarrow> string \<Rightarrow> string list"
  and skipSpaces :: "string \<Rightarrow> string list" where
  "splitWords cur [] = [cur]"
| "splitWords cur (c # cs) =
     (if isSpace c then cur # skipSpaces cs else splitWords (cur @ [c]) cs)"
| "skipSpaces [] = [[]]"
| "skipSpaces (c # cs) = (if isSpace c then skipSpaces cs else splitWords [c] cs)"

definition splitWhitespace :: "string \<Rightarrow> string list" where
  "splitWhitespace s = splitWords [] s"

text \<open>
  \<^verbatim>\<open>s.split(sep)[1]\<close> for a non-empty separator: the piece between the first and the second
  occurrence of \<open>sep\<close> (to the end when there is no second one), \<^verbatim>\<open>undefined\<close> (\<open>None\<close>) when
  \<open>sep\<close> does not occur.
\<close>

fun afterFirst :: "string \<Rightarrow> string \<Rightarrow> string option" where
  "afterFirst sep [] = None"
| "afterFirst sep (c # cs) =
     (if startsWith (c # cs) sep then Some (drop (length sep) (c # cs)) else afterFirst sep cs)"

fun beforeFirst :: "string \<Rightarrow> string \<Rightarrow> string" where
  "beforeFirst sep [] = []"
| "beforeFirst sep (c # cs) =
     (if startsWith (c # cs) sep then [] else c # beforeFirst sep cs)"

definition splitSecond :: "string \<Rightarrow> string \<Rightarrow> string option" where
  "splitSecond sep s = map_option (beforeFirst sep) (afterFirst sep s)"

section \<open>Link selection: \<^verbatim>\<open>decideBestLink\<close> (src/app/api/stagehand/main.ts)\<close>

record link =
  "text" :: string
  href :: string

text \<open>
  What the chat-completion call yields inside the \<^verbatim>\<open>try\<close> block: it throws (the request
  fails, or \<^verbatim>\<open>choices[0]\<close> is missing), or it delivers \<^verbatim>\<open>message.content\<close>, which may
  be \<^verbatim>\<open>null\<close>.
\<close>

datatype reply = Throws | Content "string option"

text \<open>
  The reasoner is a parameter: a function of the three variable parts of the prompt (the
  formatted link sample, the target topic and the current page title).
\<close>

type_synonym reasoner = "string \<Rightarrow> string \<Rightarrow> string \<Rightarrow> reply"

definition formatLink :: "link \<Rightarrow> string" where
  "formatLink l = ''- '' @ text l @ '' ('' @ href l @ '')''"

fun joinLines :: "string list \<Rightarrow> string" where
  "joinLines [] = []"
| "joinLines [x] = x"
| "joinLines (x # y # ys) = x @ [CHR 0x0A] @ joinLines (y # ys)"

definition linkSample :: "link list \<Rightarrow> link list" where
  "linkSample links = (if length links > 75 then take 75 links else links)"

definition formattedLinks :: "link list \<Rightarrow> string" where
  "formattedLinks links = joinLines (map formatLink (linkSample links))"

text \<open>Tier 1: \<^verbatim>\<open>links.find(link => link.text === bestLinkText)\<close>\<close>

definition exactMatch :: "string \<Rightarrow> link list \<Rightarrow> link option" where
  "exactMatch bestLinkText links = find (\<lambda>l. text l = bestLinkText) links"

text \<open>Tier 2: containment either way, or equality up to case.\<close>

definition fuzzyMatch :: "string \<Rightarrow> link list \<Rightarrow> link option" where
  "fuzzyMatch bestLinkText links =
     find (\<lambda>l. includes (text l) bestLinkText \<or> includes bestLinkText (text l) \<or>
                toLowerCase (text l) = toLowerCase bestLinkText) links"

text \<open>
  Tier 3: every link is scored by the share of the answer's lower-case words that occur in
  the link's lower-case text; the scores are sorted in descending order (the sort is stable)
  and the head is taken when its score exceeds one half.
\<close>

definition bestLinkWords :: "string \<Rightarrow> string list" where
  "bestLinkWords bestLinkText = splitWhitespace (toLowerCase bestLinkText)"

definition linkScore :: "string list \<Rightarrow> link \<Rightarrow> rat" where
  "linkScore ws l =
     of_nat (length (filter (\<lambda>word. includes (toLowerCase (text l)) word) ws)) / of_nat (length ws)"

definition linkScores :: "string \<Rightarrow> link list \<Rightarrow> (link \<times> rat) list" where
  "linkScores bestLinkText links =
     sort_key (\<lambda>p. - snd p) (map (\<lambda>l. (l, linkScore (bestLinkWords bestLinkText) l)) links)"

definition tokenMatch :: "string \<Rightarrow> link list \<Rightarrow> link option" where
  "tokenMatch bestLinkText links =
     (case linkScores bestLinkText links of
        [] \<Rightarrow> None
      | p # _ \<Rightarrow> if snd p > 1 / 2 then Some (fst p) else None)"

text \<open>
  The \<^verbatim>\<open>catch\<close> branch: links with a long text or an initial that is its own upper case
  are preferred; \<open>r\<close> is the value of \<^verbatim>\<open>Math.random()\<close>. An index outside the array reads
  \<^verbatim>\<open>undefined\<close>, written \<open>None\<close> like \<^verbatim>\<open>null\<close>.
\<close>

definition capitalized :: "string \<Rightarrow> bool" where
  "capitalized s = (case s of [] \<Rightarrow> True | c # _ \<Rightarrow> upperChar c = c)"

definition potentialGoodLinks :: "link list \<Rightarrow> link list" where
  "potentialGoodLinks links = filter (\<lambda>l. length (text l) > 10 \<or> capitalized (text l)) links"

definition randomElement :: "rat \<Rightarrow> 'a list \<Rightarrow> 'a option" where
  "randomElement r xs =
     (let i = \<lfloor>r * of_nat (length xs)\<rfloor>
      in if 0 \<le> i \<and> nat i < length xs then Some (xs ! nat i) else None)"

definition randomFallback :: "rat \<Rightarrow> link list \<Rightarrow> link option" where
  "randomFallback r links =
     (let good = potentialGoodLinks links;
          fallbackLinks = (if length good > 0 then good else links)
      in randomElement r fallbackLinks)"

definition firstLink :: "link list \<Rightarrow> link option" where
  "firstLink links = (case links of [] \<Rightarrow> None | l # _ \<Rightarrow> Some l)"

definition matchAnswer :: "string \<Rightarrow> link list \<Rightarrow> link option" where
  "matchAnswer bestLinkText links =
     (case exactMatch bestLinkText links of
        Some l \<Rightarrow> Some l
      | None \<Rightarrow>
          (case fuzzyMatch bestLinkText links of
             Some l \<Rightarrow> Some l
           | None \<Rightarrow>
               (case tokenMatch bestLinkText links of
                  Some l \<Rightarrow> Some l
                | None \<Rightarrow> firstLink links)))"

definition decideBestLink ::
  "reasoner \<Rightarrow> rat \<Rightarrow> link list \<Rightarrow> string \<Rightarrow> string \<Rightarrow> link option" where
  "decideBestLink openai r links targetPage currentPageTitle =
     (if length links = 0 then None
      else
        (case openai (formattedLinks links) (underscoresToSpaces targetPage) currentPageTitle of
           Throws \<Rightarrow> randomFallback r links
         | Content None \<Rightarrow> firstLink links
         | Content (Some content) \<Rightarrow>
             (let bestLinkText = trim content
              in if bestLinkText = [] then firstLink links
                 else matchAnswer bestLinkText links)))"

section \<open>Race state: \<^verbatim>\<open>Home\<close> (src/app/page.tsx)\<close>

text \<open>
  Dates are their \<^verbatim>\<open>getTime()\<close> value, an integer number of milliseconds; elapsed times
  are that difference divided by 1000, kept exact as a rational.
\<close>

record PlayerPath =
  url :: string
  title :: string
  timestamp :: int

datatype Winner = player | ai

datatype Rating = cooked | cracked | mid

datatype Status = not_started | in_progress | completed

record GameResult =
  winner :: Winner
  playerClicks :: nat
  aiClicks :: nat
  playerTime :: rat
  aiTime :: rat
  commentary :: string
  rating :: Rating

record GameStateType =
  status :: Status
  startPage :: string
  targetPage :: string
  playerPath :: "PlayerPath list"
  aiPath :: "PlayerPath list"
  startTime :: "int option"
  endTime :: "int option"
  result :: "GameResult option"

datatype js_error = TypeError

definition initialState :: GameStateType where
  "initialState =
     \<lparr>status = not_started, startPage = [], targetPage = [], playerPath = [], aiPath = [],
      startTime = None, endTime = None, result = None\<rparr>"

subsection \<open>\<^verbatim>\<open>endGame\<close>\<close>

definition aiReachedTarget :: "GameStateType \<Rightarrow> bool" where
  "aiReachedTarget prev =
     list_ex (\<lambda>step. spacesToUnderscores (title step) = targetPage prev \<or>
                      includes (url step) (''/wiki/'' @ targetPage prev)) (aiPath prev)"

definition playerReachedTarget :: "GameStateType \<Rightarrow> bool" where
  "playerReachedTarget prev =
     list_ex (\<lambda>step. spacesToUnderscores (title step) = targetPage prev) (playerPath prev)"

definition decideWinner :: "string \<Rightarrow> GameStateType \<Rightarrow> Winner" where
  "decideWinner reason prev =
     (if reason = ''ai-won'' then ai
      else if aiReachedTarget prev \<and> \<not> playerReachedTarget prev then ai
      else if playerReachedTarget prev \<and> \<not> aiReachedTarget prev then player
      else if aiReachedTarget prev \<and> playerReachedTarget prev then
        (if length (playerPath prev) \<le> length (aiPath prev) then player else ai)
      else player)"

definition elapsedSeconds :: "int \<Rightarrow> int \<Rightarrow> rat" where
  "elapsedSeconds t t0 = of_int (t - t0) / 1000"

text \<open>
  The state updater of \<^verbatim>\<open>endGame\<close>. \<open>now\<close> is the clock read for \<^verbatim>\<open>playerTime\<close>,
  \<open>nowEnd\<close> the one read for \<^verbatim>\<open>endTime\<close>. With a non-empty \<^verbatim>\<open>aiPath\<close> the updater
  dereferences \<^verbatim>\<open>prev.startTime!\<close>, which throws when the start time is \<^verbatim>\<open>null\<close>.
\<close>

definition endGameUpdate :: "string \<Rightarrow> int \<Rightarrow> int \<Rightarrow> GameStateType \<Rightarrow> js_error + GameStateType" where
  "endGameUpdate reason now nowEnd prev =
     (let win = decideWinner reason prev;
          pTime = (case startTime prev of Some t0 \<Rightarrow> elapsedSeconds now t0 | None \<Rightarrow> 0);
          aTime = (if length (aiPath prev) > 0
                   then (case startTime prev of
                           None \<Rightarrow> Inl TypeError
                         | Some t0 \<Rightarrow> Inr (elapsedSeconds (timestamp (last (aiPath prev))) t0))
                   else Inr pTime)
      in case aTime of
           Inl e \<Rightarrow> Inl e
         | Inr a \<Rightarrow>
             Inr (prev\<lparr>status := completed, endTime := Some nowEnd,
                       result := Some \<lparr>winner = win, playerClicks = length (playerPath prev),
                                        aiClicks = length (aiPath prev), playerTime = pTime,
                                        aiTime = a, commentary = ''generating commentary...'',
                                        rating = mid\<rparr>\<rparr>))"

text \<open>What \<^verbatim>\<open>endGame(reason)\<close> does to the game state: nothing for \<^verbatim>\<open>'error'\<close>.\<close>

definition endGameState :: "string \<Rightarrow> int \<Rightarrow> int \<Rightarrow> GameStateType \<Rightarrow> js_error + GameStateType" where
  "endGameState reason now nowEnd prev =
     (if reason = ''error'' then Inr prev else endGameUpdate reason now nowEnd prev)"

subsection \<open>\<^verbatim>\<open>generateEndGameCommentary\<close>: the two state updates it ends with\<close>

definition commentaryLoaded :: "string \<Rightarrow> Rating \<Rightarrow> GameStateType \<Rightarrow> GameStateType" where
  "commentaryLoaded dataCommentary dataRating prev =
     (case result prev of
        Some res \<Rightarrow> prev\<lparr>result := Some (res\<lparr>commentary := dataCommentary, rating := dataRating\<rparr>)\<rparr>
      | None \<Rightarrow> prev)"

text \<open>The two fallback texts; each carries one emoji, written as its UTF-8 bytes.\<close>

definition playerWonText :: string where
  "playerWonText =
     ''you beat the ai! not bad for a human '' @ [CHR 0xF0, CHR 0x9F, CHR 0x91, CHR 0x8F]"

definition aiWonText :: string where
  "aiWonText =
     ''better luck next time '' @ [CHR 0xF0, CHR 0x9F, CHR 0x98, CHR 0x82] @ '' ai wins again''"

definition commentaryFallback :: "Winner \<Rightarrow> GameStateType \<Rightarrow> GameStateType" where
  "commentaryFallback win prev =
     (case result prev of
        Some res \<Rightarrow>
          prev\<lparr>result := Some (res\<lparr>commentary :=
                                      (if win = player then playerWonText else aiWonText),
                                    rating := (if win = player then cracked else cooked)\<rparr>)\<rparr>
      | None \<Rightarrow> prev)"

subsection \<open>\<^verbatim>\<open>startGame\<close>: the state it installs\<close>

definition startState :: "string \<Rightarrow> string \<Rightarrow> int \<Rightarrow> GameStateType" where
  "startState start target now =
     \<lparr>status = in_progress, startPage = start, targetPage = target, playerPath = [], aiPath = [],
      startTime = Some now, endTime = None, result = None\<rparr>"

subsection \<open>\<^verbatim>\<open>handlePlayerNavigation\<close>\<close>

definition handlePlayerNavigation :: "string \<Rightarrow> string \<Rightarrow> int \<Rightarrow> GameStateType \<Rightarrow> GameStateType" where
  "handlePlayerNavigation u t now prev =
     (let urlExists = list_ex (\<lambda>item. url item = u) (playerPath prev)
      in if urlExists then prev
         else prev\<lparr>playerPath := playerPath prev @ [\<lparr>url = u, title = t, timestamp = now\<rparr>]\<rparr>)"

text \<open>Whether the call also requests a running commentary (\<^verbatim>\<open>generateAICommentary\<close>).\<close>

definition commentaryRequested :: "string \<Rightarrow> GameStateType \<Rightarrow> bool" where
  "commentaryRequested u prev =
     (\<not> list_ex (\<lambda>item. url item = u) (playerPath prev) \<and>
      length (playerPath prev) + 1 \<ge> 2 \<and> status prev = in_progress)"

subsection \<open>\<^verbatim>\<open>fetchSessionData\<close>: the state update for an observed agent page\<close>

definition isTargetReached :: "string \<Rightarrow> string \<Rightarrow> string \<Rightarrow> bool" where
  "isTargetReached currentUrl pageTitle normalizedTargetPage =
     (let currentPagePath = splitSecond ''/wiki/'' currentUrl
      in currentPagePath = Some normalizedTargetPage \<or>
         spacesToUnderscores pageTitle = normalizedTargetPage \<or>
         (case currentPagePath of
            None \<Rightarrow> False
          | Some p \<Rightarrow> p \<noteq> [] \<and> normalizedTargetPage \<noteq> [] \<and>
                      toLowerCase p = toLowerCase normalizedTargetPage))"

text \<open>
  The updater passed to \<^verbatim>\<open>setGameState\<close>; it is reached for a page whose URL differs from the
  last known one and contains \<^verbatim>\<open>wikipedia.org/wiki/\<close>. The second component tells whether
  \<^verbatim>\<open>setTimeout(() => endGame('ai-won'), 1000)\<close> was issued.
\<close>

definition addAiStep :: "string \<Rightarrow> string \<Rightarrow> int \<Rightarrow> GameStateType \<Rightarrow> GameStateType \<times> bool" where
  "addAiStep currentUrl pageTitle now prev =
     (let urlExists = list_ex (\<lambda>item. url item = currentUrl) (aiPath prev)
      in if \<not> urlExists then
           (prev\<lparr>aiPath := aiPath prev @ [\<lparr>url = currentUrl, title = pageTitle, timestamp = now\<rparr>]\<rparr>,
            isTargetReached currentUrl pageTitle (targetPage prev) \<and> \<not> playerReachedTarget prev)
         else (prev, False))"

subsection \<open>Events on the game state\<close>

datatype event =
    StartGame string string int
  | PlayerNavigation string string int
  | AgentPage string string int
  | EndGame string int int
  | CommentaryLoaded string Rating
  | CommentaryFallback Winner

fun applyEvent :: "event \<Rightarrow> GameStateType \<Rightarrow> js_error + GameStateType" where
  "applyEvent (StartGame start target now) s = Inr (startState start target now)"
| "applyEvent (PlayerNavigation u t now) s = Inr (handlePlayerNavigation u t now s)"
| "applyEvent (AgentPage u t now) s = Inr (fst (addAiStep u t now s))"
| "applyEvent (EndGame reason now nowEnd) s = endGameState reason now nowEnd s"
| "applyEvent (CommentaryLoaded c r) s = Inr (commentaryLoaded c r s)"
| "applyEvent (CommentaryFallback w) s = Inr (commentaryFallback w s)"

fun run :: "event list \<Rightarrow> GameStateType \<Rightarrow> js_error + GameStateType" where
  "run [] s = Inr s"
| "run (e # es) s = (case applyEvent e s of Inl err \<Rightarrow> Inl err | Inr s' \<Rightarrow> run es s')"

text \<open>The events that start a race or (re)compute its outcome.\<close>

fun decides :: "event \<Rightarrow> bool" where
  "decides (StartGame start target now) = True"
| "decides (EndGame reason now nowEnd) = (reason \<noteq> ''error'')"
| "decides e = False"

subsection \<open>The component state around the game state\<close>

text \<open>
  The state cells of \<^verbatim>\<open>Home\<close> that \<^verbatim>\<open>startGame\<close> and \<^verbatim>\<open>endGame\<close> write besides the
  game state, and the error cell that the page displays.
\<close>

datatype Env = BROWSERBASE | LOCAL

record Home =
  gameState :: GameStateType
  running :: bool
  debugUrl :: "string option"
  error :: "string option"
  sessionId :: "string option"
  lastKnownUrl :: "string option"

definition initialHome :: Home where
  "initialHome =
     \<lparr>gameState = initialState, running = False, debugUrl = None, error = None,
      sessionId = None, lastKnownUrl = None\<rparr>"

definition endGame :: "string \<Rightarrow> int \<Rightarrow> int \<Rightarrow> Home \<Rightarrow> js_error + Home" where
  "endGame reason now nowEnd h =
     (let h1 = h\<lparr>running := False, lastKnownUrl := None\<rparr>
      in if reason = ''error'' then Inr h1
         else (case endGameUpdate reason now nowEnd (gameState h1) of
                 Inl e \<Rightarrow> Inl e
               | Inr g \<Rightarrow> Inr (h1\<lparr>gameState := g\<rparr>)))"

definition wikiPairs :: "(string \<times> string) list" where
  "wikiPairs =
     [(''Pizza'', ''Albert_Einstein''), (''Taylor_Swift'', ''Quantum_mechanics''),
      (''Basketball'', ''Ancient_Rome''), (''Coffee'', ''Moon_landing''), (''TikTok'', ''Dinosaur'')]"

text \<open>
  \<^verbatim>\<open>startGame\<close> is an asynchronous function, and other handlers run while it awaits. It is
  modelled in the pieces that run without interruption. The first piece runs up to the first
  \<^verbatim>\<open>await\<close>: it returns at once while the configuration is not loaded (\<open>config = None\<close>),
  picks a random pair when a page is missing (\<open>r\<close> is \<^verbatim>\<open>Math.random()\<close>), installs the
  \<^verbatim>\<open>in-progress\<close> state and sets \<^verbatim>\<open>running\<close>.
\<close>

definition startGameBegin ::
  "Env option \<Rightarrow> rat \<Rightarrow> int \<Rightarrow> string \<Rightarrow> string \<Rightarrow> Home \<Rightarrow> js_error + Home" where
  "startGameBegin config r now start target h =
     (case config of
        None \<Rightarrow> Inr h
      | Some env \<Rightarrow>
          (case (if start = [] \<or> target = [] then randomElement r wikiPairs
                 else Some (start, target)) of
             None \<Rightarrow> Inl TypeError
           | Some (st, tg) \<Rightarrow>
               Inr (h\<lparr>gameState := startState st tg now, running := True\<rparr>)))"

text \<open>The piece after \<^verbatim>\<open>await startBBSSession()\<close> has returned a session.\<close>

definition sessionStarted :: "string \<Rightarrow> string \<Rightarrow> Home \<Rightarrow> Home" where
  "sessionStarted sid dbg h = h\<lparr>debugUrl := Some dbg, sessionId := Some sid\<rparr>"

text \<open>
  The \<^verbatim>\<open>catch\<close> block, entered when \<^verbatim>\<open>startBBSSession\<close> or \<^verbatim>\<open>runStagehand\<close> throws
  an error with the given message. It runs on the state of the moment the error arrives.
\<close>

definition setupFailed :: "string \<Rightarrow> int \<Rightarrow> Home \<Rightarrow> js_error + Home" where
  "setupFailed message now h = endGame ''error'' now now (h\<lparr>error := Some message\<rparr>)"

subsection \<open>The page: state cells and what is on screen\<close>

text \<open>
  A state update does not redraw the page at once: the updates of a handler are applied in
  order, and the page is rendered from the resulting cells some time later. \<open>home\<close> holds the
  cells with every update so far applied, \<open>shown\<close> the cells the last render was computed
  from. What is on screen is a function of \<open>shown\<close>: the navigation frame \<^verbatim>\<open>WikiFrame\<close>
  is in the \<^verbatim>\<open>in-progress\<close> branch of the JSX, the error box in the \<^verbatim>\<open>not-started\<close>
  branch (and \<^verbatim>\<open>error && ...\<close> hides an empty message).
\<close>

record Page =
  home :: Home
  shown :: Home

definition initialPage :: Page where
  "initialPage = \<lparr>home = initialHome, shown = initialHome\<rparr>"

definition render :: "Page \<Rightarrow> Page" where
  "render p = p\<lparr>shown := home p\<rparr>"

definition wikiFrameMounted :: "Page \<Rightarrow> bool" where
  "wikiFrameMounted p = (status (gameState (shown p)) = in_progress)"

definition errorShown :: "Page \<Rightarrow> bool" where
  "errorShown p =
     (status (gameState (shown p)) = not_started \<and>
      (case error (shown p) of None \<Rightarrow> False | Some message \<Rightarrow> message \<noteq> []))"

text \<open>
  What can happen to the page. \<^verbatim>\<open>WikiFrame\<close> is the only caller of
  \<^verbatim>\<open>handlePlayerNavigation\<close>, and it calls only while it is mounted (its page loads are
  asynchronous and test \<^verbatim>\<open>contentRef.current\<close> when they finish): a \<open>Navigation\<close> on a
  page without the frame changes nothing. The other events are not restricted by what is on
  screen: timers, polls and awaited calls finish whenever they finish.
\<close>

datatype pageEvent =
    Render
  | StartGameCall "Env option" rat int string string
  | SessionStarted string string
  | SetupFailed string int
  | EndGameCall string int int
  | Navigation string string int
  | AgentPageSeen string string int
  | CommentaryResult string Rating
  | CommentaryError Winner

definition onHome :: "(Home \<Rightarrow> js_error + Home) \<Rightarrow> Page \<Rightarrow> js_error + Page" where
  "onHome f p = (case f (home p) of Inl e \<Rightarrow> Inl e | Inr h \<Rightarrow> Inr (p\<lparr>home := h\<rparr>))"

definition onGame :: "(GameStateType \<Rightarrow> GameStateType) \<Rightarrow> Home \<Rightarrow> js_error + Home" where
  "onGame f h = Inr (h\<lparr>gameState := f (gameState h)\<rparr>)"

fun applyPage :: "pageEvent \<Rightarrow> Page \<Rightarrow> js_error + Page" where
  "applyPage Render p = Inr (render p)"
| "applyPage (StartGameCall config r now start target) p =
     onHome (startGameBegin config r now start target) p"
| "applyPage (SessionStarted sid dbg) p = onHome (\<lambda>h. Inr (sessionStarted sid dbg h)) p"
| "applyPage (SetupFailed message now) p = onHome (setupFailed message now) p"
| "applyPage (EndGameCall reason now nowEnd) p = onHome (endGame reason now nowEnd) p"
| "applyPage (Navigation u t now) p =
     (if wikiFrameMounted p then onHome (onGame (handlePlayerNavigation u t now)) p else Inr p)"
| "applyPage (AgentPageSeen u t now) p =
     onHome (\<lambda>h. onGame (\<lambda>g. fst (addAiStep u t now g)) (h\<lparr>lastKnownUrl := Some u\<rparr>)) p"
| "applyPage (CommentaryResult c r) p = onHome (onGame (commentaryLoaded c r)) p"
| "applyPage (CommentaryError w) p = onHome (onGame (commentaryFallback w)) p"

fun runPage :: "pageEvent list \<Rightarrow> Page \<Rightarrow> js_error + Page" where
  "runPage [] p = Inr p"
| "runPage (e # es) p = (case applyPage e p of Inl err \<Rightarrow> Inl err | Inr p' \<Rightarrow> runPage es p')"

section \<open>Auxiliary predicates and concrete races\<close>

text \<open>Both paths free of repeated URLs.\<close>

definition pathsDistinct :: "GameStateType \<Rightarrow> bool" where
  "pathsDistinct s = (distinct (map url (playerPath s)) \<and> distinct (map url (aiPath s)))"


text \<open>Two outcome records that agree on everything but commentary and rating.\<close>

definition sameOutcome :: "GameResult \<Rightarrow> GameResult \<Rightarrow> bool" where
  "sameOutcome a b =
     (winner a = winner b \<and> playerClicks a = playerClicks b \<and> aiClicks a = aiClicks b \<and>
      playerTime a = playerTime b \<and> aiTime a = aiTime b)"

text \<open>
  The screen never lags behind a race that has not started: when the last render saw a race
  that had left \<^verbatim>\<open>not-started\<close>, the cells have left it too.
\<close>

definition screenBehind :: "Page \<Rightarrow> bool" where
  "screenBehind p =
     (status (gameState (shown p)) = not_started \<or> status (gameState (home p)) \<noteq> not_started)"

definition pizzaLinks :: "link list" where
  "pizzaLinks =
     [\<lparr>text = ''Pizza'', href = ''/wiki/Pizza''\<rparr>,
      \<lparr>text = ''Physics'', href = ''/wiki/Physics''\<rparr>,
      \<lparr>text = ''cheese'', href = ''/wiki/Cheese''\<rparr>]"

definition physicsLinks :: "link list" where
  "physicsLinks =
     [\<lparr>text = ''Quantum Physics'', href = ''/wiki/Quantum_physics''\<rparr>,
      \<lparr>text = ''Physics'', href = ''/wiki/Physics''\<rparr>,
      \<lparr>text = ''cheese'', href = ''/wiki/Cheese''\<rparr>]"

definition einsteinUrl :: string where
  "einsteinUrl = ''https://en.wikipedia.org/wiki/Albert_Einstein''"

text \<open>
  A race in which both sides have the target as their second step; the agent got there after
  4 seconds, the player after 4.5 seconds, before the agent's delayed completion call.
\<close>

definition tieEvents :: "event list" where
  "tieEvents =
     [StartGame ''Pizza'' ''Albert_Einstein'' 0,
      AgentPage ''https://en.wikipedia.org/wiki/Pizza'' ''Pizza'' 1000,
      PlayerNavigation ''https://en.wikipedia.org/wiki/Italy'' ''Italy'' 3000,
      AgentPage einsteinUrl ''Albert Einstein'' 4000,
      PlayerNavigation einsteinUrl ''Albert Einstein'' 4500]"

definition tieState :: GameStateType where
  "tieState =
     \<lparr>status = in_progress, startPage = ''Pizza'', targetPage = ''Albert_Einstein'',
      playerPath = [\<lparr>url = ''https://en.wikipedia.org/wiki/Italy'', title = ''Italy'', timestamp = 3000\<rparr>,
                    \<lparr>url = einsteinUrl, title = ''Albert Einstein'', timestamp = 4500\<rparr>],
      aiPath = [\<lparr>url = ''https://en.wikipedia.org/wiki/Pizza'', title = ''Pizza'', timestamp = 1000\<rparr>,
                \<lparr>url = einsteinUrl, title = ''Albert Einstein'', timestamp = 4000\<rparr>],
      startTime = Some 0, endTime = None, result = None\<rparr>"

definition tieResult :: GameResult where
  "tieResult =
     \<lparr>winner = player, playerClicks = 2, aiClicks = 2, playerTime = 9 / 2, aiTime = 4,
      commentary = ''generating commentary...'', rating = mid\<rparr>"


definition scenarioAFinal :: GameStateType where
  "scenarioAFinal =
     \<lparr>status = completed, startPage = ''Pizza'', targetPage = ''Albert_Einstein'',
      playerPath = [\<lparr>url = ''https://en.wikipedia.org/wiki/Italy'', title = ''Italy'', timestamp = 4500\<rparr>],
      aiPath = [\<lparr>url = einsteinUrl, title = ''Albert Einstein'', timestamp = 4000\<rparr>],
      startTime = Some 0, endTime = Some 5001,
      result = Some \<lparr>winner = ai, playerClicks = 1, aiClicks = 1, playerTime = 5, aiTime = 4,
                      commentary = ''generating commentary...'', rating = mid\<rparr>\<rparr>"

text \<open>
  A race whose browser session cannot be started: the call, the render that follows it, the
  error, and the render after the error.
\<close>

definition startedPage :: Page where
  "startedPage =
     \<lparr>home = \<lparr>gameState = startState ''Pizza'' ''Albert_Einstein'' 1000, running = True,
              debugUrl = None, error = None, sessionId = None, lastKnownUrl = None\<rparr>,
      shown = initialHome\<rparr>"

definition failedHome :: Home where
  "failedHome =
     \<lparr>gameState = startState ''Pizza'' ''Albert_Einstein'' 1000, running = False,
      debugUrl = None, error = Some ''session could not start'', sessionId = None,
      lastKnownUrl = None\<rparr>"

definition failedPage :: Page where
  "failedPage = \<lparr>home = failedHome, shown = home startedPage\<rparr>"

text \<open>
  A race that the agent's delayed \<^verbatim>\<open>endGame('ai-won')\<close> ends while a page load of the
  human is under way: the events up to the timer, and the page they lead to. The agent is
  seen on the target after 4 seconds, the timer fires a second later, and no render has taken
  place since when the page load finishes.
\<close>

definition lateEvents :: "pageEvent list" where
  "lateEvents =
     [StartGameCall (Some BROWSERBASE) 0 0 ''Pizza'' ''Albert_Einstein'',
      Render,
      SessionStarted ''session-1'' ''https://debug.example/1'',
      Render,
      AgentPageSeen einsteinUrl ''Albert Einstein'' 4000,
      Render,
      EndGameCall ''ai-won'' 5000 5001]"

definition endedGame :: GameStateType where
  "endedGame =
     \<lparr>status = completed, startPage = ''Pizza'', targetPage = ''Albert_Einstein'',
      playerPath = [],
      aiPath = [\<lparr>url = einsteinUrl, title = ''Albert Einstein'', timestamp = 4000\<rparr>],
      startTime = Some 0, endTime = Some 5001,
      result = Some \<lparr>winner = ai, playerClicks = 0, aiClicks = 1, playerTime = 5, aiTime = 4,
                      commentary = ''generating commentary...'', rating = mid\<rparr>\<rparr>"

definition endedPage :: Page where
  "endedPage =
     \<lparr>home = \<lparr>gameState = endedGame, running = False,
              debugUrl = Some ''https://debug.example/1'', error = None,
              sessionId = Some ''session-1'', lastKnownUrl = None\<rparr>,
      shown = \<lparr>gameState = fst (addAiStep einsteinUrl ''Albert Einstein'' 4000
                                 (startState ''Pizza'' ''Albert_Einstein'' 0)),
               running = True, debugUrl = Some ''https://debug.example/1'', error = None,
               sessionId = Some ''session-1'', lastKnownUrl = Some einsteinUrl\<rparr>\<rparr>"

definition italyStep :: PlayerPath where
  "italyStep = \<lparr>url = ''https://en.wikipedia.org/wiki/Italy'', title = ''Italy'', timestamp = 5002\<rparr>"

text \<open>A race in which each side comes back to a page it has already visited.\<close>

definition revisitEvents :: "event list" where
  "revisitEvents =
     [StartGame ''Pizza'' ''Albert_Einstein'' 0,
      PlayerNavigation ''https://en.wikipedia.org/wiki/Italy'' ''Italy'' 1000,
      AgentPage ''https://en.wikipedia.org/wiki/Pizza'' ''Pizza'' 1500,
      PlayerNavigation ''https://en.wikipedia.org/wiki/Rome'' ''Rome'' 2000,
      AgentPage ''https://en.wikipedia.org/wiki/Naples'' ''Naples'' 2500,
      PlayerNavigation ''https://en.wikipedia.org/wiki/Italy'' ''Italy'' 3000,
      AgentPage ''https://en.wikipedia.org/wiki/Pizza'' ''Pizza'' 3500]"

definition revisitFinal :: GameStateType where
  "revisitFinal =
     \<lparr>status = in_progress, startPage = ''Pizza'', targetPage = ''Albert_Einstein'',
      playerPath = [\<lparr>url = ''https://en.wikipedia.org/wiki/Italy'', title = ''Italy'', timestamp = 1000\<rparr>,
                    \<lparr>url = ''https://en.wikipedia.org/wiki/Rome'', title = ''Rome'', timestamp = 2000\<rparr>],
      aiPath = [\<lparr>url = ''https://en.wikipedia.org/wiki/Pizza'', title = ''Pizza'', timestamp = 1500\<rparr>,
                \<lparr>url = ''https://en.wikipedia.org/wiki/Naples'', title = ''Naples'', timestamp = 2500\<rparr>],
      startTime = Some 0, endTime = None, result = None\<rparr>"

section \<open>Link selection\<close>

lemma find_in_set: "find P xs = Some x \<Longrightarrow> x \<in> set xs"
  by (induction xs) (auto split: if_splits)

lemma find_Some_first: "x \<in> set xs \<Longrightarrow> P x \<Longrightarrow> \<exists>y \<in> set xs. find P xs = Some y \<and> P y"
  by (induction xs) auto

lemma firstLink_in_set: "firstLink links = Some l \<Longrightarrow> l \<in> set links"
  by (cases links) (auto simp: firstLink_def)

lemma firstLink_None: "firstLink links = None \<longleftrightarrow> links = []"
  by (cases links) (auto simp: firstLink_def)

lemma randomElement_in_set: "randomElement r xs = Some x \<Longrightarrow> x \<in> set xs"
  by (auto simp: randomElement_def Let_def split: if_splits)

lemma random_index_bound:
  assumes "0 \<le> r" "r < 1" "xs \<noteq> []"
  shows "0 \<le> \<lfloor>r * of_nat (length xs)\<rfloor> \<and> nat \<lfloor>r * of_nat (length xs)\<rfloor> < length xs"
proof -
  have n: "0 < (of_nat (length xs) :: rat)" using assms(3) by simp
  have lo: "0 \<le> r * of_nat (length xs)" using assms(1) by simp
  have hi: "r * of_nat (length xs) < of_nat (length xs)" using assms(2) n by simp
  have "\<lfloor>r * of_nat (length xs)\<rfloor> < int (length xs)"
    using hi by (simp add: floor_less_iff)
  moreover have "0 \<le> \<lfloor>r * of_nat (length xs)\<rfloor>" using lo by simp
  ultimately show ?thesis by linarith
qed

lemma randomElement_Some:
  assumes "0 \<le> r" "r < 1" "xs \<noteq> []"
  shows "randomElement r xs \<noteq> None"
  using random_index_bound[OF assms] by (simp add: randomElement_def Let_def)

lemma potentialGoodLinks_subset: "set (potentialGoodLinks links) \<subseteq> set links"
  by (auto simp: potentialGoodLinks_def)

lemma randomFallback_in_set: "randomFallback r links = Some l \<Longrightarrow> l \<in> set links"
  using potentialGoodLinks_subset[of links]
  by (auto simp: randomFallback_def Let_def dest!: randomElement_in_set split: if_splits)

lemma randomFallback_Some:
  assumes "0 \<le> r" "r < 1" "links \<noteq> []"
  shows "randomFallback r links \<noteq> None"
proof (cases "potentialGoodLinks links = []")
  case True
  then show ?thesis using randomElement_Some[OF assms] by (simp add: randomFallback_def)
next
  case False
  then show ?thesis using randomElement_Some[OF assms(1,2) False] by (simp add: randomFallback_def)
qed

lemma linkScores_set:
  "set (linkScores t links) = (\<lambda>l. (l, linkScore (bestLinkWords t) l)) ` set links"
  by (simp add: linkScores_def)

lemma tokenMatch_in_set: "tokenMatch t links = Some l \<Longrightarrow> l \<in> set links"
proof -
  assume a: "tokenMatch t links = Some l"
  then obtain p ps where ps: "linkScores t links = p # ps" and l: "l = fst p"
    by (auto simp: tokenMatch_def split: list.splits if_splits)
  have "p \<in> set (linkScores t links)" using ps by simp
  then show ?thesis using l by (auto simp: linkScores_set)
qed

lemma tokenMatch_None:
  assumes "\<forall>l \<in> set links. linkScore (bestLinkWords t) l \<le> 1 / 2"
  shows "tokenMatch t links = None"
proof (cases "linkScores t links")
  case Nil
  then show ?thesis by (simp add: tokenMatch_def)
next
  case (Cons p ps)
  then have "p \<in> set (linkScores t links)" by simp
  then have "snd p \<le> 1 / 2" using assms by (auto simp: linkScores_def)
  then show ?thesis using Cons by (simp add: tokenMatch_def)
qed

lemma matchAnswer_in_set: "matchAnswer t links = Some l \<Longrightarrow> l \<in> set links"
  by (auto simp: matchAnswer_def exactMatch_def fuzzyMatch_def split: option.splits
      dest: find_in_set tokenMatch_in_set firstLink_in_set)

lemma matchAnswer_Some: "links \<noteq> [] \<Longrightarrow> matchAnswer t links \<noteq> None"
  using firstLink_None[of links] by (auto simp: matchAnswer_def split: option.splits)

text \<open>
  Claim C6. \<^verbatim>\<open>decideBestLink\<close> is total: every exception of the reasoner call is caught
  inside it, so the model has no error result. For every value \<open>r\<close> that
  \<^verbatim>\<open>Math.random()\<close> can return, every reasoner (one that throws, one that answers nothing,
  one whose answer matches no link), every target and page title, the result is \<^verbatim>\<open>null\<close>
  exactly when the candidate list is empty, and any link returned is an element of the
  candidate list.
\<close>

theorem decideBestLink_total:
  assumes "0 \<le> r" "r < 1"
  shows "(decideBestLink openai r links target currentPageTitle = None \<longleftrightarrow> links = []) \<and>
         (\<forall>l. decideBestLink openai r links target currentPageTitle = Some l \<longrightarrow> l \<in> set links)"
proof (cases "links = []")
  case True
  then show ?thesis by (simp add: decideBestLink_def)
next
  case False
  let ?rep = "openai (formattedLinks links) (underscoresToSpaces target) currentPageTitle"
  show ?thesis
  proof (cases ?rep)
    case Throws
    then show ?thesis
      using False randomFallback_Some[OF assms False] randomFallback_in_set[of r links]
      by (auto simp: decideBestLink_def)
  next
    case (Content c)
    then show ?thesis
      using False matchAnswer_Some[OF False] matchAnswer_in_set[of _ links]
        firstLink_None[of links] firstLink_in_set[of links]
      by (cases c) (auto simp: decideBestLink_def Let_def)
  qed
qed

lemma pizza_fallback:
  "decideBestLink (\<lambda>_ _ _. Throws) (3 / 4) pizzaLinks ''Albert_Einstein'' ''Pizza'' =
     Some \<lparr>text = ''Physics'', href = ''/wiki/Physics''\<rparr>"
  by code_simp

text \<open>
  Claim C6 at a concrete input: the reasoner throws, \<^verbatim>\<open>Math.random()\<close> returns 0.75, and
  the second of three candidates is returned.
\<close>

theorem decideBestLink_total_witness:
  "(0::rat) \<le> 3 / 4 \<and> (3 / 4 :: rat) < 1 \<and>
   decideBestLink (\<lambda>_ _ _. Throws) (3 / 4) pizzaLinks ''Albert_Einstein'' ''Pizza'' =
     Some \<lparr>text = ''Physics'', href = ''/wiki/Physics''\<rparr> \<and>
   \<lparr>text = ''Physics'', href = ''/wiki/Physics''\<rparr> \<in> set pizzaLinks \<and>
   pizzaLinks \<noteq> []"
proof -
  have lo: "(0::rat) \<le> 3 / 4" by simp
  have hi: "(3 / 4 :: rat) < 1" by simp
  note th = decideBestLink_total[OF lo hi, of "\<lambda>_ _ _. Throws" pizzaLinks "''Albert_Einstein''" "''Pizza''"]
  from th pizza_fallback have m: "\<lparr>text = ''Physics'', href = ''/wiki/Physics''\<rparr> \<in> set pizzaLinks"
    by simp
  from th pizza_fallback have n: "pizzaLinks \<noteq> []" by simp
  show ?thesis using lo hi pizza_fallback m n by (intro conjI) assumption+
qed

text \<open>
  Claim C7. When the reasoner's answer (trimmed, as the code reads it, and not empty) is the
  text of some candidate \<open>c\<close>, the result is a candidate with exactly that text: the first
  one in the list, which is \<open>c\<close> itself when no other candidate carries the same text. The
  later tiers are not consulted, whatever they would have matched.
\<close>

theorem exact_match_precedence:
  assumes rep: "openai (formattedLinks links) (underscoresToSpaces target) currentPageTitle =
                Content (Some content)"
    and ne: "trim content \<noteq> []"
    and c: "c \<in> set links" "text c = trim content"
  shows "(\<exists>l \<in> set links. decideBestLink openai r links target currentPageTitle = Some l \<and>
            text l = trim content) \<and>
         decideBestLink openai r links target currentPageTitle =
           find (\<lambda>l. text l = trim content) links \<and>
         ((\<forall>l \<in> set links. text l = trim content \<longrightarrow> l = c) \<longrightarrow>
            decideBestLink openai r links target currentPageTitle = Some c)"
proof -
  from c have nonempty: "links \<noteq> []" by auto
  from find_Some_first[of c links "\<lambda>l. text l = trim content"] c
  obtain y where y: "y \<in> set links" "find (\<lambda>l. text l = trim content) links = Some y"
    "text y = trim content" by auto
  have dec: "decideBestLink openai r links target currentPageTitle = Some y"
    using rep ne nonempty y(2)
    by (simp add: decideBestLink_def Let_def matchAnswer_def exactMatch_def)
  have uniq: "(\<forall>l \<in> set links. text l = trim content \<longrightarrow> l = c) \<longrightarrow> y = c"
    using y by auto
  show ?thesis using dec y uniq by auto
qed

text \<open>
  Claim C7 at a concrete input: the answer \<^verbatim>\<open>Physics\<close> is the text of the second candidate,
  while the containment tier alone would have picked the first candidate,
  \<^verbatim>\<open>Quantum Physics\<close>.
\<close>

theorem exact_match_precedence_witness:
  "trim ''Physics'' \<noteq> [] \<and>
   \<lparr>text = ''Physics'', href = ''/wiki/Physics''\<rparr> \<in> set physicsLinks \<and>
   text \<lparr>text = ''Physics'', href = ''/wiki/Physics''\<rparr> = trim ''Physics'' \<and>
   fuzzyMatch (trim ''Physics'') physicsLinks =
     Some \<lparr>text = ''Quantum Physics'', href = ''/wiki/Quantum_physics''\<rparr> \<and>
   decideBestLink (\<lambda>_ _ _. Content (Some ''Physics'')) 0 physicsLinks ''Albert_Einstein'' ''Pizza'' =
     Some \<lparr>text = ''Physics'', href = ''/wiki/Physics''\<rparr>"
proof -
  let ?c = "\<lparr>text = ''Physics'', href = ''/wiki/Physics''\<rparr>"
  have t: "trim ''Physics'' = ''Physics''" by code_simp
  have ne: "trim ''Physics'' \<noteq> []" by (simp add: t)
  have m: "?c \<in> set physicsLinks" by (simp add: physicsLinks_def)
  have tx: "text ?c = trim ''Physics''" by (simp add: t)
  have u: "\<forall>l \<in> set physicsLinks. text l = trim ''Physics'' \<longrightarrow> l = ?c"
    by (simp add: t physicsLinks_def)
  have f: "fuzzyMatch (trim ''Physics'') physicsLinks =
     Some \<lparr>text = ''Quantum Physics'', href = ''/wiki/Quantum_physics''\<rparr>"
    by code_simp
  have d: "decideBestLink (\<lambda>_ _ _. Content (Some ''Physics'')) 0 physicsLinks ''Albert_Einstein'' ''Pizza'' = Some ?c"
    using exact_match_precedence[of "\<lambda>_ _ _. Content (Some ''Physics'')" physicsLinks
        "''Albert_Einstein''" "''Pizza''" "''Physics''" ?c 0, OF refl ne m tx] u
    by blast
  show ?thesis using ne m tx f d by (intro conjI) assumption+
qed

text \<open>
  Claim C8. The score of a candidate is, by \<open>linkScore\<close>, the number of lower-case answer
  words occurring in the candidate's lower-case text divided by the number of words. When
  the answer scores at most one half against every candidate, the token tier selects nothing;
  and when the two earlier tiers found nothing either, the result is the first candidate of
  the list.
\<close>

theorem token_overlap_threshold:
  assumes rep: "openai (formattedLinks links) (underscoresToSpaces target) currentPageTitle =
                Content (Some content)"
    and ne: "trim content \<noteq> []"
    and nonempty: "links \<noteq> []"
    and low: "\<forall>l \<in> set links. linkScore (bestLinkWords (trim content)) l \<le> 1 / 2"
  shows "tokenMatch (trim content) links = None \<and>
         (exactMatch (trim content) links = None \<longrightarrow> fuzzyMatch (trim content) links = None \<longrightarrow>
            decideBestLink openai r links target currentPageTitle = Some (hd links))"
proof -
  have tm: "tokenMatch (trim content) links = None" using low by (rule tokenMatch_None)
  have fl: "firstLink links = Some (hd links)" using nonempty by (cases links) (auto simp: firstLink_def)
  show ?thesis using tm fl rep ne nonempty
    by (simp add: decideBestLink_def Let_def matchAnswer_def)
qed

text \<open>
  Claim C8 at a concrete input: of the two words of \<^verbatim>\<open>the physics\<close> one occurs in
  \<^verbatim>\<open>Physics\<close>, a score of exactly one half, and the first candidate \<^verbatim>\<open>Pizza\<close> is
  returned.
\<close>

theorem token_overlap_threshold_witness:
  "trim ''the physics'' \<noteq> [] \<and> pizzaLinks \<noteq> [] \<and>
   linkScore (bestLinkWords (trim ''the physics'')) \<lparr>text = ''Pizza'', href = ''/wiki/Pizza''\<rparr> = 0 \<and>
   linkScore (bestLinkWords (trim ''the physics'')) \<lparr>text = ''Physics'', href = ''/wiki/Physics''\<rparr> = 1 / 2 \<and>
   linkScore (bestLinkWords (trim ''the physics'')) \<lparr>text = ''cheese'', href = ''/wiki/Cheese''\<rparr> = 0 \<and>
   exactMatch (trim ''the physics'') pizzaLinks = None \<and>
   fuzzyMatch (trim ''the physics'') pizzaLinks = None \<and>
   tokenMatch (trim ''the physics'') pizzaLinks = None \<and>
   decideBestLink (\<lambda>_ _ _. Content (Some ''the physics'')) 0 pizzaLinks ''Albert_Einstein'' ''Pizza'' =
     Some \<lparr>text = ''Pizza'', href = ''/wiki/Pizza''\<rparr>"
proof -
  have t: "trim ''the physics'' = ''the physics''" by code_simp
  have ne: "trim ''the physics'' \<noteq> []" by (simp add: t)
  have n: "pizzaLinks \<noteq> []" by (simp add: pizzaLinks_def)
  have s1: "linkScore (bestLinkWords (trim ''the physics'')) \<lparr>text = ''Pizza'', href = ''/wiki/Pizza''\<rparr> = 0" by code_simp
  have s2: "linkScore (bestLinkWords (trim ''the physics'')) \<lparr>text = ''Physics'', href = ''/wiki/Physics''\<rparr> = 1 / 2" by code_simp
  have s3: "linkScore (bestLinkWords (trim ''the physics'')) \<lparr>text = ''cheese'', href = ''/wiki/Cheese''\<rparr> = 0" by code_simp
  have low: "\<forall>l \<in> set pizzaLinks. linkScore (bestLinkWords (trim ''the physics'')) l \<le> 1 / 2"
    using s1 s2 s3 by (simp add: pizzaLinks_def)
  have e: "exactMatch (trim ''the physics'') pizzaLinks = None" by code_simp
  have f: "fuzzyMatch (trim ''the physics'') pizzaLinks = None" by code_simp
  have h: "hd pizzaLinks = \<lparr>text = ''Pizza'', href = ''/wiki/Pizza''\<rparr>" by (simp add: pizzaLinks_def)
  have d: "tokenMatch (trim ''the physics'') pizzaLinks = None \<and>
      decideBestLink (\<lambda>_ _ _. Content (Some ''the physics'')) 0 pizzaLinks ''Albert_Einstein'' ''Pizza'' =
        Some (hd pizzaLinks)"
    using token_overlap_threshold[of "\<lambda>_ _ _. Content (Some ''the physics'')" pizzaLinks
        "''Albert_Einstein''" "''Pizza''" "''the physics''" 0, OF refl ne n low] e f
    by blast
  show ?thesis using ne n s1 s2 s3 e f d unfolding h by (intro conjI) (assumption | erule conjE)+
qed

section \<open>Race state\<close>

subsection \<open>The winner of a tie\<close>

lemma tie_facts:
  "aiReachedTarget tieState" "playerReachedTarget tieState"
  "length (playerPath tieState) = length (aiPath tieState)"
  by (simp_all add: tieState_def aiReachedTarget_def playerReachedTarget_def spacesToUnderscores_def einsteinUrl_def)

lemma tie_reached: "run tieEvents initialState = Inr tieState"
  by (simp add: tieEvents_def tieState_def startState_def handlePlayerNavigation_def
      addAiStep_def Let_def einsteinUrl_def)

lemma tie_end:
  "endGameUpdate ''completed'' 4500 4501 tieState =
     Inr (tieState\<lparr>status := completed, endTime := Some 4501, result := Some tieResult\<rparr>)"
  by (simp add: endGameUpdate_def decideWinner_def tie_facts Let_def elapsedSeconds_def tieResult_def)
     (simp add: tieState_def elapsedSeconds_def)

text \<open>
  Claim C1 fails as stated. In \<open>tieState\<close>, reached by the events \<open>tieEvents\<close>, both
  paths contain the target and both have two steps; the agent's elapsed time is 4 seconds and
  the player's 4.5. The claim makes the side with the lower elapsed time, the agent, the
  winner; \<^verbatim>\<open>endGame()\<close>, called for the player, makes the player the winner.
\<close>

theorem tie_break_counterexample:
  "run tieEvents initialState = Inr tieState \<and>
   aiReachedTarget tieState \<and> playerReachedTarget tieState \<and>
   length (playerPath tieState) = length (aiPath tieState) \<and>
   endGameUpdate ''completed'' 4500 4501 tieState =
     Inr (tieState\<lparr>status := completed, endTime := Some 4501, result := Some tieResult\<rparr>) \<and>
   aiTime tieResult < playerTime tieResult \<and> winner tieResult = player"
  using tie_reached tie_facts tie_end by (simp add: tieResult_def)

text \<open>
  Claim C1, amended. When both paths contain the target and their step counts are equal,
  \<^verbatim>\<open>endGame\<close> does not consult the elapsed times: the winner is the agent when the call
  carries the reason \<^verbatim>\<open>'ai-won'\<close> (the agent's own completion signal) and the player for
  every other reason, whatever the timestamps and clock readings are.
\<close>

theorem equal_steps_winner:
  assumes "aiReachedTarget s" "playerReachedTarget s"
    and "length (playerPath s) = length (aiPath s)"
    and "endGameUpdate reason now nowEnd s = Inr s'"
  shows "map_option winner (result s') = Some (if reason = ''ai-won'' then ai else player)"
  using assms
  by (auto simp: endGameUpdate_def decideWinner_def Let_def split: if_splits option.splits)

text \<open>Claim C1, amended, at \<open>tieState\<close> with the player's signal.\<close>

theorem equal_steps_winner_witness:
  "aiReachedTarget tieState \<and> playerReachedTarget tieState \<and>
   length (playerPath tieState) = length (aiPath tieState) \<and>
   endGameUpdate ''completed'' 4500 4501 tieState =
     Inr (tieState\<lparr>status := completed, endTime := Some 4501, result := Some tieResult\<rparr>) \<and>
   map_option winner
     (result (tieState\<lparr>status := completed, endTime := Some 4501, result := Some tieResult\<rparr>)) =
   Some player"
proof -
  have "map_option winner
     (result (tieState\<lparr>status := completed, endTime := Some 4501, result := Some tieResult\<rparr>)) =
   Some player"
    using equal_steps_winner[OF tie_facts tie_end] by simp
  then show ?thesis using tie_facts tie_end by (intro conjI) assumption+
qed

subsection \<open>Completion by the agent\<close>














subsection \<open>Human steps\<close>

text \<open>
  \<^verbatim>\<open>handlePlayerNavigation\<close> itself does not look at the status before it appends: in every
  status it changes nothing but the human path, appending the step when the URL is not in the
  path yet. The status is tested in the same updater, but only for the request of a running
  commentary.
\<close>

lemma handlePlayerNavigation_frame:
  "status (handlePlayerNavigation u t now s) = status s \<and>
   startPage (handlePlayerNavigation u t now s) = startPage s \<and>
   targetPage (handlePlayerNavigation u t now s) = targetPage s \<and>
   aiPath (handlePlayerNavigation u t now s) = aiPath s \<and>
   startTime (handlePlayerNavigation u t now s) = startTime s \<and>
   endTime (handlePlayerNavigation u t now s) = endTime s \<and>
   result (handlePlayerNavigation u t now s) = result s \<and>
   (u \<notin> url ` set (playerPath s) \<longrightarrow>
      playerPath (handlePlayerNavigation u t now s) =
        playerPath s @ [\<lparr>url = u, title = t, timestamp = now\<rparr>]) \<and>
   (u \<in> url ` set (playerPath s) \<longrightarrow> handlePlayerNavigation u t now s = s)"
  by (auto simp: handlePlayerNavigation_def Let_def list_ex_iff)

lemma commentaryRequested_in_progress: "commentaryRequested u s \<Longrightarrow> status s = in_progress"
  by (simp add: commentaryRequested_def)

lemma startGameBegin_status:
  "startGameBegin config r now start target h = Inr h' \<Longrightarrow>
   status (gameState h') = in_progress \<or> h' = h"
  by (auto simp: startGameBegin_def startState_def split: option.splits prod.splits if_splits)

lemma endGame_status:
  "endGame reason now nowEnd h = Inr h' \<Longrightarrow>
   status (gameState h') = completed \<or> gameState h' = gameState h"
  by (auto simp: endGame_def endGameUpdate_def Let_def split: if_splits sum.splits option.splits)

lemma setupFailed_eq:
  "setupFailed message now h =
     Inr (h\<lparr>error := Some message, running := False, lastKnownUrl := None\<rparr>)"
  by (simp add: setupFailed_def endGame_def Let_def)

lemma addAiStep_status: "status (fst (addAiStep u t now g)) = status g"
  by (simp add: addAiStep_def Let_def)

lemma commentary_status:
  "status (commentaryLoaded c r g) = status g" "status (commentaryFallback w g) = status g"
  by (simp_all add: commentaryLoaded_def commentaryFallback_def split: option.splits)

lemma handlePlayerNavigation_status: "status (handlePlayerNavigation u t now g) = status g"
  by (simp add: handlePlayerNavigation_def Let_def)

text \<open>Once a race has left \<^verbatim>\<open>not-started\<close>, no event brings it back.\<close>

lemma applyPage_started:
  assumes "status (gameState (home p)) \<noteq> not_started" and "applyPage e p = Inr p'"
  shows "status (gameState (home p')) \<noteq> not_started"
proof (cases e)
  case Render
  then show ?thesis using assms by (auto simp: render_def)
next
  case (StartGameCall config r now start target)
  then obtain h where h: "startGameBegin config r now start target (home p) = Inr h" "home p' = h"
    using assms(2) by (auto simp: onHome_def split: sum.splits)
  from startGameBegin_status[OF h(1)] show ?thesis using assms(1) h(2) by auto
next
  case (SessionStarted sid dbg)
  then show ?thesis using assms by (auto simp: onHome_def sessionStarted_def)
next
  case (SetupFailed message now)
  then show ?thesis using assms by (auto simp: onHome_def setupFailed_eq)
next
  case (EndGameCall reason now nowEnd)
  then obtain h where h: "endGame reason now nowEnd (home p) = Inr h" "home p' = h"
    using assms(2) by (auto simp: onHome_def split: sum.splits)
  from endGame_status[OF h(1)] show ?thesis using assms(1) h(2) by auto
next
  case (Navigation u t now)
  then show ?thesis using assms
    by (auto simp: onHome_def onGame_def handlePlayerNavigation_status split: if_splits)
next
  case (AgentPageSeen u t now)
  then show ?thesis using assms by (auto simp: onHome_def onGame_def addAiStep_status)
next
  case (CommentaryResult c r)
  then show ?thesis using assms by (auto simp: onHome_def onGame_def commentary_status)
next
  case (CommentaryError w)
  then show ?thesis using assms by (auto simp: onHome_def onGame_def commentary_status)
qed

lemma runPage_started:
  "status (gameState (home p)) \<noteq> not_started \<Longrightarrow> runPage es p = Inr p' \<Longrightarrow>
   status (gameState (home p')) \<noteq> not_started"
proof (induction es arbitrary: p)
  case Nil
  then show ?case by simp
next
  case (Cons e es)
  then show ?case by (auto split: sum.splits dest: applyPage_started)
qed

lemma applyPage_shown:
  "applyPage e p = Inr p' \<Longrightarrow> shown p' = shown p \<or> (e = Render \<and> shown p' = home p \<and> home p' = home p)"
  by (cases e) (auto simp: render_def onHome_def split: sum.splits if_splits)

lemma applyPage_screenBehind:
  assumes "screenBehind p" and "applyPage e p = Inr p'"
  shows "screenBehind p'"
proof (cases "status (gameState (home p)) = not_started")
  case True
  then have "status (gameState (shown p)) = not_started" using assms(1) by (simp add: screenBehind_def)
  then show ?thesis using applyPage_shown[OF assms(2)] True by (auto simp: screenBehind_def)
next
  case False
  then show ?thesis using applyPage_started[OF False assms(2)] by (simp add: screenBehind_def)
qed

lemma runPage_screenBehind: "screenBehind p \<Longrightarrow> runPage es p = Inr p' \<Longrightarrow> screenBehind p'"
proof (induction es arbitrary: p)
  case Nil
  then show ?case by simp
next
  case (Cons e es)
  then show ?case by (auto split: sum.splits dest: applyPage_screenBehind)
qed

text \<open>
  No notification reaches a race that has not started: on every page reached from the initial
  one, the frame is not mounted while the status is \<^verbatim>\<open>not-started\<close>, and a notification
  changes nothing there.
\<close>

lemma navigation_not_before_start:
  assumes "runPage es initialPage = Inr p" and "status (gameState (home p)) = not_started"
  shows "\<not> wikiFrameMounted p \<and> applyPage (Navigation u t now) p = Inr p"
proof -
  have "screenBehind initialPage" by (simp add: screenBehind_def initialPage_def)
  from runPage_screenBehind[OF this assms(1)] assms(2)
  have "status (gameState (shown p)) = not_started" by (simp add: screenBehind_def)
  then show ?thesis by (simp add: wikiFrameMounted_def)
qed

lemma late_run: "runPage lateEvents initialPage = Inr endedPage"
  by (simp add: lateEvents_def initialPage_def initialHome_def endedPage_def endedGame_def
      onHome_def onGame_def render_def startGameBegin_def sessionStarted_def endGame_def
      endGameUpdate_def decideWinner_def elapsedSeconds_def startState_def addAiStep_def Let_def)

lemma late_scheduled:
  "snd (addAiStep einsteinUrl ''Albert Einstein'' 4000 (startState ''Pizza'' ''Albert_Einstein'' 0))"
  by (simp add: addAiStep_def Let_def startState_def isTargetReached_def playerReachedTarget_def
      spacesToUnderscores_def)

text \<open>
  Claim C3: a human step is rejected while the race is \<^verbatim>\<open>not-started\<close>, and the human
  path is appended to only while the race is \<^verbatim>\<open>in-progress\<close>. The first half holds on
  every page that can be reached (lemma \<open>navigation_not_before_start\<close>); the second half is
  not met by the code on a race that has just been completed. After the events
  \<open>lateEvents\<close> the agent's timer has completed the race (status \<^verbatim>\<open>completed\<close>, outcome
  with 0 human steps), but the page has not been rendered since, so the navigation frame is
  still mounted. The page load that finishes now is delivered to
  \<^verbatim>\<open>handlePlayerNavigation\<close>, which appends its step to the human path of the completed
  race: the path has one step, the outcome still counts none.
\<close>

theorem late_navigation_appended:
  "runPage lateEvents initialPage = Inr endedPage \<and>
   snd (addAiStep einsteinUrl ''Albert Einstein'' 4000 (startState ''Pizza'' ''Albert_Einstein'' 0)) \<and>
   wikiFrameMounted endedPage \<and>
   status (gameState (home endedPage)) = completed \<and>
   playerPath (gameState (home endedPage)) = [] \<and>
   map_option playerClicks (result (gameState (home endedPage))) = Some 0 \<and>
   applyPage (Navigation ''https://en.wikipedia.org/wiki/Italy'' ''Italy'' 5002) endedPage =
     Inr (endedPage\<lparr>home := (home endedPage)\<lparr>gameState := endedGame\<lparr>playerPath := [italyStep]\<rparr>\<rparr>\<rparr>) \<and>
   status (endedGame\<lparr>playerPath := [italyStep]\<rparr>) = completed"
  using late_run late_scheduled
  by (simp add: endedPage_def endedGame_def wikiFrameMounted_def addAiStep_def Let_def
      startState_def onHome_def onGame_def handlePlayerNavigation_def italyStep_def)

text \<open>
  Claim C9. A second \<^verbatim>\<open>handlePlayerNavigation\<close> with the same URL, whatever its title and
  time, returns the state the first one produced; in particular the human path has the same
  length.
\<close>

theorem handlePlayerNavigation_idempotent:
  "handlePlayerNavigation u t2 n2 (handlePlayerNavigation u t1 n1 s) = handlePlayerNavigation u t1 n1 s \<and>
   length (playerPath (handlePlayerNavigation u t2 n2 (handlePlayerNavigation u t1 n1 s))) =
   length (playerPath (handlePlayerNavigation u t1 n1 s))"
  by (simp add: handlePlayerNavigation_def Let_def list_ex_iff)

subsection \<open>The outcome after completion\<close>

lemma quiet_event_result:
  "\<not> decides e \<Longrightarrow> result s = Some res \<Longrightarrow>
   \<exists>s' res'. applyEvent e s = Inr s' \<and> result s' = Some res' \<and> sameOutcome res res' \<and>
             status s' = status s"
  by (cases e)
     (auto simp: handlePlayerNavigation_def addAiStep_def Let_def endGameState_def sameOutcome_def
        commentaryLoaded_def commentaryFallback_def)

lemma sameOutcome_trans: "sameOutcome a b \<Longrightarrow> sameOutcome b c \<Longrightarrow> sameOutcome a c"
  by (simp add: sameOutcome_def)

lemma quiet_run_result:
  "\<forall>e \<in> set es. \<not> decides e \<Longrightarrow> result s = Some res \<Longrightarrow>
   \<exists>s' res'. run es s = Inr s' \<and> result s' = Some res' \<and> sameOutcome res res' \<and>
             status s' = status s"
proof (induction es arbitrary: s res)
  case Nil
  then show ?case by (simp add: sameOutcome_def)
next
  case (Cons e es)
  from Cons.prems have q: "\<not> decides e" and qs: "\<forall>e \<in> set es. \<not> decides e" by simp_all
  from quiet_event_result[OF q Cons.prems(2)] obtain s1 res1 where
    s1: "applyEvent e s = Inr s1" "result s1 = Some res1" "sameOutcome res res1"
        "status s1 = status s" by blast
  from Cons.IH[OF qs s1(2)] obtain s2 res2 where
    s2: "run es s1 = Inr s2" "result s2 = Some res2" "sameOutcome res1 res2"
        "status s2 = status s1" by blast
  have "sameOutcome res res2" using s1(3) s2(3) by (rule sameOutcome_trans)
  then show ?case using s1 s2 by simp
qed

lemma scenarioA_reached:
  "run [StartGame ''Pizza'' ''Albert_Einstein'' 0, AgentPage einsteinUrl ''Albert Einstein'' 4000,
        PlayerNavigation ''https://en.wikipedia.org/wiki/Italy'' ''Italy'' 4500,
        EndGame ''ai-won'' 5000 5001] initialState = Inr scenarioAFinal"
  by (simp add: startState_def addAiStep_def handlePlayerNavigation_def Let_def
      endGameState_def endGameUpdate_def decideWinner_def elapsedSeconds_def scenarioAFinal_def)

text \<open>
  Claim C4 fails as stated. The race of scenario A completes with the rating \<^verbatim>\<open>mid\<close>; when
  the generated commentary arrives with the rating \<^verbatim>\<open>cooked\<close>, the rating of the outcome
  becomes \<^verbatim>\<open>cooked\<close>: the rating is replaced together with the commentary.
\<close>

theorem rating_replaced_counterexample:
  "run [StartGame ''Pizza'' ''Albert_Einstein'' 0, AgentPage einsteinUrl ''Albert Einstein'' 4000,
        PlayerNavigation ''https://en.wikipedia.org/wiki/Italy'' ''Italy'' 4500,
        EndGame ''ai-won'' 5000 5001] initialState = Inr scenarioAFinal \<and>
   status scenarioAFinal = completed \<and>
   map_option rating (result scenarioAFinal) = Some mid \<and>
   map_option rating (result (commentaryLoaded ''cooked by the ai'' cooked scenarioAFinal)) = Some cooked"
  using scenarioA_reached by (simp add: scenarioAFinal_def commentaryLoaded_def)

text \<open>
  Claim C4, amended. Once an outcome is present, every sequence of events other than a new
  \<^verbatim>\<open>startGame\<close> or a further \<^verbatim>\<open>endGame\<close> with a reason other than \<^verbatim>\<open>'error'\<close>
  (human steps, agent pages, commentary results, \<^verbatim>\<open>endGame('error')\<close>) runs without
  error and keeps the status and the winner, both step counts and both elapsed times of the
  outcome. The commentary result replaces the commentary and the rating, and nothing else:
  with the delivered values when the request succeeds, with the fallback text and the rating
  \<^verbatim>\<open>cracked\<close> or \<^verbatim>\<open>cooked\<close> when it fails.
\<close>

theorem outcome_frame:
  assumes "result s = Some res" and "\<forall>e \<in> set es. \<not> decides e"
  shows "(\<exists>s' res'. run es s = Inr s' \<and> result s' = Some res' \<and> sameOutcome res res' \<and>
                    status s' = status s) \<and>
         result (commentaryLoaded c r s) = Some (res\<lparr>commentary := c, rating := r\<rparr>) \<and>
         result (commentaryFallback w s) =
           Some (res\<lparr>commentary := (if w = player then playerWonText else aiWonText),
                     rating := (if w = player then cracked else cooked)\<rparr>)"
  using quiet_run_result[OF assms(2) assms(1)] assms(1)
  by (simp add: commentaryLoaded_def commentaryFallback_def)

lemma demo_quiet:
  "\<forall>e \<in> set [CommentaryLoaded ''cooked by the ai'' cooked,
               PlayerNavigation ''https://en.wikipedia.org/wiki/Rome'' ''Rome'' 6000]. \<not> decides e"
  by simp

lemma demo_result:
  "result scenarioAFinal =
     Some \<lparr>winner = ai, playerClicks = 1, aiClicks = 1, playerTime = 5, aiTime = 4,
            commentary = ''generating commentary...'', rating = mid\<rparr>"
  by (simp add: scenarioAFinal_def)

lemma demo_run:
  "run [CommentaryLoaded ''cooked by the ai'' cooked,
        PlayerNavigation ''https://en.wikipedia.org/wiki/Rome'' ''Rome'' 6000] scenarioAFinal =
   Inr (scenarioAFinal\<lparr>
     playerPath := [\<lparr>url = ''https://en.wikipedia.org/wiki/Italy'', title = ''Italy'', timestamp = 4500\<rparr>,
                    \<lparr>url = ''https://en.wikipedia.org/wiki/Rome'', title = ''Rome'', timestamp = 6000\<rparr>],
     result := Some \<lparr>winner = ai, playerClicks = 1, aiClicks = 1, playerTime = 5, aiTime = 4,
            commentary = ''cooked by the ai'', rating = cooked\<rparr>\<rparr>)"
  by (simp add: scenarioAFinal_def commentaryLoaded_def handlePlayerNavigation_def Let_def)

text \<open>
  Claim C4, amended, on the completed race of scenario A: the commentary arrives and the
  human takes one more step.
\<close>

theorem outcome_frame_witness:
  "result scenarioAFinal =
     Some \<lparr>winner = ai, playerClicks = 1, aiClicks = 1, playerTime = 5, aiTime = 4,
            commentary = ''generating commentary...'', rating = mid\<rparr> \<and>
   \<not> decides (CommentaryLoaded ''cooked by the ai'' cooked) \<and>
   \<not> decides (PlayerNavigation ''https://en.wikipedia.org/wiki/Rome'' ''Rome'' 6000) \<and>
   run [CommentaryLoaded ''cooked by the ai'' cooked,
        PlayerNavigation ''https://en.wikipedia.org/wiki/Rome'' ''Rome'' 6000] scenarioAFinal =
   Inr (scenarioAFinal\<lparr>
     playerPath := [\<lparr>url = ''https://en.wikipedia.org/wiki/Italy'', title = ''Italy'', timestamp = 4500\<rparr>,
                    \<lparr>url = ''https://en.wikipedia.org/wiki/Rome'', title = ''Rome'', timestamp = 6000\<rparr>],
     result := Some \<lparr>winner = ai, playerClicks = 1, aiClicks = 1, playerTime = 5, aiTime = 4,
            commentary = ''cooked by the ai'', rating = cooked\<rparr>\<rparr>) \<and>
   result (commentaryLoaded ''cooked by the ai'' cooked scenarioAFinal) =
     Some \<lparr>winner = ai, playerClicks = 1, aiClicks = 1, playerTime = 5, aiTime = 4,
            commentary = ''cooked by the ai'', rating = cooked\<rparr>"
proof -
  note th = outcome_frame[OF demo_result demo_quiet, of "''cooked by the ai''" cooked ai]
  from th have "result (commentaryLoaded ''cooked by the ai'' cooked scenarioAFinal) =
     Some \<lparr>winner = ai, playerClicks = 1, aiClicks = 1, playerTime = 5, aiTime = 4,
            commentary = ''cooked by the ai'', rating = cooked\<rparr>"
    by simp
  moreover have "\<not> decides (CommentaryLoaded ''cooked by the ai'' cooked)"
    "\<not> decides (PlayerNavigation ''https://en.wikipedia.org/wiki/Rome'' ''Rome'' 6000)"
    using demo_quiet by simp_all
  ultimately show ?thesis using demo_result demo_run by (intro conjI) assumption+
qed

subsection \<open>A failed setup\<close>

lemma startGameCall_in_progress:
  "applyPage (StartGameCall (Some env) r now start target) p = Inr p1 \<Longrightarrow>
   status (gameState (home p1)) = in_progress"
  by (auto simp: onHome_def startGameBegin_def startState_def
      split: sum.splits option.splits prod.splits if_splits)

lemma render_started: "status (gameState (home p)) \<noteq> not_started \<Longrightarrow> \<not> errorShown (render p)"
  by (simp add: errorShown_def render_def)

text \<open>
  The error path in general. A call of \<^verbatim>\<open>startGame\<close> with a loaded configuration puts the
  race \<^verbatim>\<open>in-progress\<close> before anything is awaited. Whatever happens until the error
  arrives and after it, the \<^verbatim>\<open>catch\<close> block leaves the game state as it finds it (so it
  neither takes the race back nor completes it), stores the message and clears
  \<^verbatim>\<open>running\<close>; the race never returns to \<^verbatim>\<open>not-started\<close>, and no render from then on
  shows the error box.
\<close>

lemma failed_setup_general:
  assumes start: "applyPage (StartGameCall (Some env) r now start target) p = Inr p1"
    and between: "runPage between p1 = Inr p2"
    and failure: "applyPage (SetupFailed message t) p2 = Inr p3"
    and later: "runPage later p3 = Inr p4"
  shows "status (gameState (home p1)) = in_progress \<and>
         gameState (home p3) = gameState (home p2) \<and>
         status (gameState (home p3)) \<noteq> not_started \<and>
         error (home p3) = Some message \<and> running (home p3) = False \<and>
         status (gameState (home p4)) \<noteq> not_started \<and> \<not> errorShown (render p4)"
proof -
  have s1: "status (gameState (home p1)) = in_progress" using start by (rule startGameCall_in_progress)
  then have "status (gameState (home p1)) \<noteq> not_started" by simp
  from runPage_started[OF this between] have s2: "status (gameState (home p2)) \<noteq> not_started" .
  have p3: "p3 = p2\<lparr>home := (home p2)\<lparr>error := Some message, running := False, lastKnownUrl := None\<rparr>\<rparr>"
    using failure by (auto simp: onHome_def setupFailed_eq)
  have g3: "gameState (home p3) = gameState (home p2)" by (simp add: p3)
  have s3: "status (gameState (home p3)) \<noteq> not_started" using s2 g3 by simp
  from runPage_started[OF s3 later] have s4: "status (gameState (home p4)) \<noteq> not_started" .
  have e3: "error (home p3) = Some message" "running (home p3) = False" by (simp_all add: p3)
  show ?thesis using s1 g3 s3 e3 s4 render_started[OF s4] by (intro conjI)
qed

lemma failed_start:
  "applyPage (StartGameCall (Some BROWSERBASE) 0 1000 ''Pizza'' ''Albert_Einstein'') initialPage =
     Inr startedPage"
  by (simp add: onHome_def startGameBegin_def initialPage_def initialHome_def startedPage_def)

lemma failed_between: "runPage [Render] startedPage = Inr (render startedPage)"
  by simp

lemma failed_catch:
  "applyPage (SetupFailed ''session could not start'' 1200) (render startedPage) = Inr failedPage"
  by (simp add: onHome_def setupFailed_eq render_def startedPage_def failedPage_def failedHome_def)

lemma failed_later: "runPage [] failedPage = Inr failedPage"
  by simp

text \<open>
  Claim C5: a failed setup aborts before the race enters \<^verbatim>\<open>in-progress\<close>, surfaces one
  error message, and never completes the race through the error path. The last part holds
  (lemma \<open>failed_setup_general\<close>); the first two are not met by the code when the browser
  session cannot be started. The call has
  put the race \<^verbatim>\<open>in-progress\<close> and the page has been rendered with the race on screen
  when the error arrives; the \<^verbatim>\<open>catch\<close> block stores the message and clears \<^verbatim>\<open>running\<close>,
  and the race stays \<^verbatim>\<open>in-progress\<close> with no outcome: it was not aborted before
  \<^verbatim>\<open>in-progress\<close>. The next render shows the race with the navigation frame and no error
  box, since the box belongs to the \<^verbatim>\<open>not-started\<close> screen: the message is not surfaced.
\<close>

theorem failed_setup_in_progress:
  "status (gameState (home initialPage)) = not_started \<and>
   applyPage (StartGameCall (Some BROWSERBASE) 0 1000 ''Pizza'' ''Albert_Einstein'') initialPage =
     Inr startedPage \<and>
   status (gameState (home startedPage)) = in_progress \<and>
   runPage [Render] startedPage = Inr (render startedPage) \<and>
   applyPage (SetupFailed ''session could not start'' 1200) (render startedPage) = Inr failedPage \<and>
   status (gameState (home failedPage)) = in_progress \<and>
   result (gameState (home failedPage)) = None \<and>
   error (home failedPage) = Some ''session could not start'' \<and>
   running (home failedPage) = False \<and>
   wikiFrameMounted (render failedPage) \<and>
   \<not> errorShown (render failedPage)"
proof -
  note g = failed_setup_general[OF failed_start failed_between failed_catch failed_later]
  have a: "status (gameState (home initialPage)) = not_started"
    by (simp add: initialPage_def initialHome_def initialState_def)
  have b: "status (gameState (home startedPage)) = in_progress" using g by (rule conjunct1)
  have c: "error (home failedPage) = Some ''session could not start''"
    "running (home failedPage) = False" "\<not> errorShown (render failedPage)"
    using g by simp_all
  have d: "status (gameState (home failedPage)) = in_progress"
    "result (gameState (home failedPage)) = None"
    by (simp_all add: failedPage_def failedHome_def startState_def)
  have e: "wikiFrameMounted (render failedPage)"
    using d(1) by (simp add: wikiFrameMounted_def render_def)
  show ?thesis using a failed_start b failed_between failed_catch d c e by (intro conjI)
qed

subsection \<open>No URL twice in a path\<close>

lemma applyEvent_pathsDistinct:
  "pathsDistinct s \<Longrightarrow> applyEvent e s = Inr s' \<Longrightarrow> pathsDistinct s'"
  by (cases e)
     (auto simp: pathsDistinct_def handlePlayerNavigation_def addAiStep_def Let_def list_ex_iff
        startState_def endGameState_def endGameUpdate_def commentaryLoaded_def commentaryFallback_def
        split: if_splits option.splits sum.splits)

lemma run_pathsDistinct:
  "pathsDistinct s \<Longrightarrow> run es s = Inr s' \<Longrightarrow> pathsDistinct s'"
proof (induction es arbitrary: s)
  case Nil
  then show ?case by simp
next
  case (Cons e es)
  then show ?case by (auto split: sum.splits dest: applyEvent_pathsDistinct)
qed

text \<open>
  Claim C10. In every state reached from the initial one by any sequence of events (races
  started, human steps, agent pages, races ended, commentary results), the URLs of the human
  path are pairwise distinct and so are the URLs of the agent path.
\<close>

theorem reachable_paths_distinct:
  "run es initialState = Inr s \<Longrightarrow>
   distinct (map url (playerPath s)) \<and> distinct (map url (aiPath s))"
  using run_pathsDistinct[of initialState es s]
  by (simp add: pathsDistinct_def initialState_def)

lemma revisit_run: "run revisitEvents initialState = Inr revisitFinal"
  by (simp add: revisitEvents_def revisitFinal_def startState_def handlePlayerNavigation_def
      addAiStep_def Let_def)

text \<open>
  Claim C10 on a race in which the human returns to the first page after another page, and
  so does the agent: three notifications each, two steps each.
\<close>

theorem reachable_paths_distinct_witness:
  "run revisitEvents initialState = Inr revisitFinal \<and>
   length (playerPath revisitFinal) = 2 \<and> length (aiPath revisitFinal) = 2 \<and>
   distinct (map url (playerPath revisitFinal)) \<and> distinct (map url (aiPath revisitFinal))"
proof -
  note th = reachable_paths_distinct[OF revisit_run]
  have l: "length (playerPath revisitFinal) = 2" "length (aiPath revisitFinal) = 2"
    by (simp_all add: revisitFinal_def)
  show ?thesis using revisit_run l th by (intro conjI) (assumption | erule conjE)+
qed

end
